theory Spec2Isabelle
  imports Main "HOL-Library.Word"
begin

section \<open>Process: exit classification (Core/Process/Process.h)\<close>

text \<open>
  \<^verbatim>\<open>enum ExitReason : uint8_t\<close>. The exit reason travels as a \<^verbatim>\<open>uint8_t\<close>
  (\<^verbatim>\<open>ExitReasonToString( uint8_t )\<close>, \<^verbatim>\<open>const uint8_t exitReason = p.WaitForExit(..)\<close>),
  so it is an 8-bit word here and the enumerators are its five named values.
\<close>

type_synonym uint8_t = "8 word"
type_synonym uint32_t = "32 word"
type_synonym int32_t = "32 word"
type_synonym uint64_t = "64 word"

definition PROCESS_EXIT_UNDEFINED :: uint8_t where
  "PROCESS_EXIT_UNDEFINED = 0"

definition PROCESS_EXIT_NORMAL :: uint8_t where
  "PROCESS_EXIT_NORMAL = 1"

definition PROCESS_EXIT_ABORTED :: uint8_t where
  "PROCESS_EXIT_ABORTED = 2"

definition PROCESS_EXIT_TIMEOUT :: uint8_t where
  "PROCESS_EXIT_TIMEOUT = 3"

definition PROCESS_EXIT_TIMEOUT_INACTIVE :: uint8_t where
  "PROCESS_EXIT_TIMEOUT_INACTIVE = 4"

text \<open>The \<^verbatim>\<open>switch\<close> of \<^verbatim>\<open>Process::ExitReasonToString\<close>, case by case, with its default.\<close>

definition ExitReasonToString :: "uint8_t \<Rightarrow> string" where
  "ExitReasonToString exitReason =
     (if exitReason = PROCESS_EXIT_UNDEFINED then ''Undefined''
      else if exitReason = PROCESS_EXIT_NORMAL then ''Normal''
      else if exitReason = PROCESS_EXIT_ABORTED then ''Aborted''
      else if exitReason = PROCESS_EXIT_TIMEOUT then ''Process Timeout''
      else if exitReason = PROCESS_EXIT_TIMEOUT_INACTIVE then ''Process Timeout Inactive''
      else ''Unknown'')"

section \<open>Strings (Core/Strings/AString)\<close>

text \<open>
  An \<^verbatim>\<open>AString\<close> is a byte string: \<^typ>\<open>string\<close>. \<^verbatim>\<open>+=\<close> is \<open>@\<close>,
  \<^verbatim>\<open>GetLength\<close> is \<^const>\<open>length\<close>, and \<^verbatim>\<open>AStackString<>( s.Get(), s.GetEnd() - k )\<close>
  is \<open>take (length s - k) s\<close>.
\<close>

definition quote :: string where
  "quote = [CHR 0x22]"

definition newline :: string where
  "newline = [CHR 0x0A]"

text \<open>
  Modelled from the spec: \<^verbatim>\<open>AString::EndsWith\<close> and \<^verbatim>\<open>AString::Tokenize\<close>
  (Core/Strings/AString.cpp is not among the sources). The spec: a token "ends with"
  a marker, and the template is tokenized "on whitespace": a token is a longest run of
  characters that are not whitespace (space, tab, line feed, vertical tab, form feed,
  carriage return), and runs of whitespace give no empty token.
\<close>

definition EndsWith :: "string \<Rightarrow> string \<Rightarrow> bool" where
  "EndsWith s other =
     (length other \<le> length s \<and> drop (length s - length other) s = other)"

definition isWhitespace :: "char \<Rightarrow> bool" where
  "isWhitespace c =
     (c = CHR '' '' \<or> c = CHR 0x09 \<or> c = CHR 0x0A \<or> c = CHR 0x0B \<or> c = CHR 0x0C
      \<or> c = CHR 0x0D)"

fun Tokenize_from :: "string \<Rightarrow> string \<Rightarrow> string list" where
  "Tokenize_from cur [] = (if cur = [] then [] else [cur])"
| "Tokenize_from cur (c # cs) =
     (if isWhitespace c
      then (if cur = [] then Tokenize_from [] cs else cur # Tokenize_from [] cs)
      else Tokenize_from (cur @ [c]) cs)"

definition Tokenize :: "string \<Rightarrow> string list" where
  "Tokenize s = Tokenize_from [] s"

text \<open>The \<^verbatim>\<open>%i\<close> conversion of \<^verbatim>\<open>AString::Format\<close>: a signed decimal.\<close>

fun dec_nat :: "nat \<Rightarrow> string" where
  "dec_nat n =
     (if n < 10 then [''0123456789'' ! n]
      else dec_nat (n div 10) @ [''0123456789'' ! (n mod 10)])"

declare dec_nat.simps [simp del]

definition dec_int :: "int \<Rightarrow> string" where
  "dec_int i = (if i < 0 then ''-'' @ dec_nat (nat (- i)) else dec_nat (nat i))"

section \<open>Nodes and the node graph\<close>

text \<open>
  What \<^verbatim>\<open>ExecNode.cpp\<close> reads of a \<^verbatim>\<open>Node\<close>: its name, its type, the answer
  of \<^verbatim>\<open>IsAFile()\<close>, its stamp and, for a \<^verbatim>\<open>DirectoryListNode\<close>, the names of
  \<^verbatim>\<open>GetFiles()\<close> in the listing's order. \<^verbatim>\<open>Node.h\<close> is not among the sources, so
  \<^verbatim>\<open>IsAFile()\<close> is a field and the node types this file does not name are
  \<open>OTHER_NODE\<close>.
\<close>

datatype Type = FILE_NODE | DIRECTORY_LIST_NODE | EXEC_NODE | OTHER_NODE

record Node =
  m_Name :: string
  m_Type :: Type
  IsAFile :: bool
  m_Stamp :: uint64_t
  m_Files :: "string list"

text \<open>
  \<^verbatim>\<open>class ExecNode : public FileNode\<close>: the reflected properties, the hidden
  \<^verbatim>\<open>m_NumExecInputFiles\<close> (a \<^verbatim>\<open>uint32_t\<close>) and the two dependency arrays the
  file uses (members of \<^verbatim>\<open>Node\<close> in the source; a dependency is the node it points to).
\<close>

record ExecNode = Node +
  m_ExecExecutable :: string
  m_ExecInput :: "string list"
  m_ExecInputPath :: "string list"
  m_ExecInputPattern :: "string list"
  m_ExecInputPathRecurse :: bool
  m_ExecInputExcludePath :: "string list"
  m_ExecInputExcludedFiles :: "string list"
  m_ExecInputExcludePattern :: "string list"
  m_ExecArguments :: string
  m_ExecWorkingDir :: string
  m_ExecReturnCode :: int32_t
  m_ExecAlwaysShowOutput :: bool
  m_ExecUseStdOutAsOutput :: bool
  m_ExecAlways :: bool
  m_PreBuildDependencyNames :: "string list"
  m_Environment :: "string list"
  m_NumExecInputFiles :: uint32_t
  m_StaticDependencies :: "Node list"
  m_DynamicDependencies :: "Node list"

text \<open>The constructor \<^verbatim>\<open>ExecNode::ExecNode()\<close>, for the node named \<open>name\<close>.\<close>

definition ExecNode_ctor :: "string \<Rightarrow> ExecNode" where
  "ExecNode_ctor name =
     \<lparr> m_Name = name, m_Type = EXEC_NODE, IsAFile = True, m_Stamp = 0, m_Files = [],
       m_ExecExecutable = [], m_ExecInput = [], m_ExecInputPath = [],
       m_ExecInputPattern = [''*.*''], m_ExecInputPathRecurse = True,
       m_ExecInputExcludePath = [], m_ExecInputExcludedFiles = [],
       m_ExecInputExcludePattern = [], m_ExecArguments = [], m_ExecWorkingDir = [],
       m_ExecReturnCode = 0, m_ExecAlwaysShowOutput = False,
       m_ExecUseStdOutAsOutput = False, m_ExecAlways = False,
       m_PreBuildDependencyNames = [], m_Environment = [], m_NumExecInputFiles = 0,
       m_StaticDependencies = [], m_DynamicDependencies = [] \<rparr>"


definition FileNode_ctor :: "string \<Rightarrow> Node" where
  "FileNode_ctor name =
     \<lparr> m_Name = name, m_Type = FILE_NODE, IsAFile = True, m_Stamp = 0, m_Files = [] \<rparr>"



text \<open>
  A failed \<^verbatim>\<open>ASSERT\<close> (and the out-of-range read or wrong cast it guards) is an
  error value, not a return.
\<close>

datatype error = AssertionFailure

section \<open>ExecNode::Initialize\<close>

text \<open>
  The four helpers of \<^verbatim>\<open>Function\<close> and \<^verbatim>\<open>Node\<close> that \<open>Initialize\<close> calls are not
  among the sources; each one's answer is an argument: \<open>False\<close> or \<open>None\<close> when the
  helper returned false, the dependencies it filled in otherwise. The casts, the two
  \<^verbatim>\<open>ASSERT\<close>s and the three \<^verbatim>\<open>Add\<close>s are the source's.
\<close>

definition Initialize ::
  "bool \<Rightarrow> Node list option \<Rightarrow> Node list option \<Rightarrow> Node list option \<Rightarrow> ExecNode
     \<Rightarrow> error + (bool \<times> ExecNode)" where
  "Initialize preBuildOK executableResult execInputFilesResult execInputPathsResult n =
     (if \<not> preBuildOK then Inr (False, n)
      else (case executableResult of
        None \<Rightarrow> Inr (False, n)
      | Some executable \<Rightarrow>
          (if length executable \<noteq> 1 then Inl AssertionFailure
           else (case execInputFilesResult of
             None \<Rightarrow> Inr (False, n)
           | Some execInputFiles \<Rightarrow>
               (let n1 = n\<lparr> m_NumExecInputFiles := of_nat (length execInputFiles) \<rparr> in
                (case execInputPathsResult of
                   None \<Rightarrow> Inr (False, n1)
                 | Some execInputPaths \<Rightarrow>
                     (if length execInputPaths \<noteq> length (m_ExecInputPath n1)
                      then Inl AssertionFailure
                      else Inr (True, n1\<lparr> m_StaticDependencies :=
                             m_StaticDependencies n1 @ executable @ execInputFiles
                               @ execInputPaths \<rparr>))))))))"

text \<open>
  Modelled from the spec: \<^verbatim>\<open>Function::GetFileNode\<close> (not among the sources), from
  "resolve the executable reference to exactly one file node (fails the node's
  initialization if not exactly one)". Its argument is the list of nodes the reference
  names in the graph.
\<close>

definition GetFileNode :: "Node list \<Rightarrow> Node list option" where
  "GetFileNode resolved =
     (case resolved of
        [e] \<Rightarrow> if IsAFile e then Some [e] else None
      | _ \<Rightarrow> None)"

section \<open>ExecNode::DoDynamicDependencies\<close>







section \<open>ExecNode::GetInputFiles and ExecNode::GetFullArgs\<close>

text \<open>The loop over the files of one directory list, with the \<^verbatim>\<open>first\<close> flag.\<close>

fun GetInputFiles_files ::
  "string \<Rightarrow> string \<Rightarrow> string list \<Rightarrow> bool \<Rightarrow> string \<Rightarrow> bool \<times> string" where
  "GetInputFiles_files pre post [] first fullArgs = (first, fullArgs)"
| "GetInputFiles_files pre post (file # files) first fullArgs =
     GetInputFiles_files pre post files False
       ((if \<not> first then fullArgs @ '' '' else fullArgs) @ pre @ file @ post)"

text \<open>
  \<^verbatim>\<open>for ( size_t i=1; i < m_StaticDependencies.GetSize(); ++i )\<close>, entered at
  \<open>i = 1\<close> with \<^verbatim>\<open>first = true\<close>.
\<close>

function GetInputFiles_loop ::
  "Node list \<Rightarrow> string \<Rightarrow> string \<Rightarrow> nat \<Rightarrow> bool \<Rightarrow> string \<Rightarrow> string" where
  "GetInputFiles_loop deps pre post i first fullArgs =
     (if i < length deps then
        (if m_Type (deps ! i) = DIRECTORY_LIST_NODE
         then case GetInputFiles_files pre post (m_Files (deps ! i)) first fullArgs of
           (first', fullArgs') \<Rightarrow> GetInputFiles_loop deps pre post (i + 1) first' fullArgs'
         else GetInputFiles_loop deps pre post (i + 1) False
           ((if \<not> first then fullArgs @ '' '' else fullArgs) @ pre @ m_Name (deps ! i) @ post))
      else fullArgs)"
  by pat_completeness auto
termination
  by (relation "measure (\<lambda>(deps, pre, post, i, first, fullArgs). length deps - i)") auto

declare GetInputFiles_loop.simps [simp del]

definition GetInputFiles :: "ExecNode \<Rightarrow> string \<Rightarrow> string \<Rightarrow> string \<Rightarrow> string" where
  "GetInputFiles n fullArgs pre post =
     GetInputFiles_loop (m_StaticDependencies n) pre post 1 True fullArgs"

text \<open>The body of \<^verbatim>\<open>for ( const AString & token : tokens )\<close> in \<open>GetFullArgs\<close>.\<close>

definition GetFullArgs_token :: "ExecNode \<Rightarrow> string \<Rightarrow> string \<Rightarrow> string" where
  "GetFullArgs_token n fullArgs token =
     (if EndsWith token ''%1'' then
        GetInputFiles n fullArgs
          (if length token > 2 then take (length token - 2) token else []) []
      else if EndsWith token (quote @ ''%1'' @ quote) then
        GetInputFiles n fullArgs (take (length token - 3) token) quote
      else if EndsWith token ''%2'' then
        (if length token > 2 then fullArgs @ take (length token - 2) token else fullArgs)
          @ m_Name n
      else if EndsWith token (quote @ ''%2'' @ quote) then
        fullArgs @ take (length token - 3) token @ m_Name n @ quote
      else fullArgs @ token)
     @ '' ''"

fun GetFullArgs_tokens :: "ExecNode \<Rightarrow> string list \<Rightarrow> string \<Rightarrow> string" where
  "GetFullArgs_tokens n [] fullArgs = fullArgs"
| "GetFullArgs_tokens n (token # tokens) fullArgs =
     GetFullArgs_tokens n tokens (GetFullArgs_token n fullArgs token)"

definition GetFullArgs :: "ExecNode \<Rightarrow> string \<Rightarrow> string" where
  "GetFullArgs n fullArgs = GetFullArgs_tokens n (Tokenize (m_ExecArguments n)) fullArgs"

section \<open>ExecNode::DoBuild\<close>

text \<open>
  What \<open>DoBuild\<close> reads of \<^verbatim>\<open>FBuild::Get().GetOptions()\<close>.
\<close>

record Options =
  m_ShowCommandOutput :: bool
  m_ShowCommandSummary :: bool
  m_ShowCommandLines :: bool
  m_ProcessTimeoutSecs :: uint32_t
  m_ProcessOutputTimeoutSecs :: uint32_t

text \<open>
  The \<^verbatim>\<open>Process\<close> object, as far as \<^verbatim>\<open>Process.h\<close> defines its behaviour: the
  member \<^verbatim>\<open>m_ExitReason\<close> and the inline \<^verbatim>\<open>HasAborted()\<close>.
\<close>

record Process =
  m_ExitReason :: uint8_t

definition HasAborted :: "Process \<Rightarrow> bool" where
  "HasAborted p = (m_ExitReason p = PROCESS_EXIT_ABORTED)"

text \<open>
  \<^verbatim>\<open>Process.cpp\<close> is not among the sources. What the calls of one build answer is a
  record: the result of \<^verbatim>\<open>Spawn\<close> and the object it leaves, the two buffers
  \<^verbatim>\<open>ReadAllData\<close> fills, and the result and \<^verbatim>\<open>exitCodeOut\<close> of
  \<^verbatim>\<open>WaitForExit\<close>. The operating system is a function from the arguments of
  \<^verbatim>\<open>Spawn\<close> and \<^verbatim>\<open>ReadAllData\<close> (executable, arguments, working directory or
  none, environment, the two timeouts in milliseconds) to that record.
\<close>

record ProcessRun =
  spawnOK :: bool
  afterSpawn :: Process
  memOut :: string
  memErr :: string
  exitReason :: uint8_t
  exitCode :: int32_t

type_synonym OS =
  "string \<Rightarrow> string \<Rightarrow> string option \<Rightarrow> string list \<Rightarrow> uint32_t \<Rightarrow> uint32_t \<Rightarrow> ProcessRun"

record Env =
  options :: Options
  process :: OS
  ERROR_STR :: "int32_t \<Rightarrow> string"

text \<open>
  The effects of a build: the lines given to \<^verbatim>\<open>FLOG_OUTPUT\<close> and \<^verbatim>\<open>FLOG_ERROR\<close>,
  the buffers given to \<^verbatim>\<open>Node::DumpOutput\<close>, and the files.
\<close>

datatype LogEntry = FLOG_OUTPUT string | FLOG_ERROR string

record World =
  flog :: "LogEntry list"
  jobOutput :: "string list"
  fileSystem :: "string \<rightharpoonup> string"
  fileTimes :: "string \<Rightarrow> uint64_t"

datatype BuildResult = NODE_RESULT_FAILED | NODE_RESULT_OK

text \<open>
  Modelled from the spec: \<^verbatim>\<open>FileStream\<close> and \<^verbatim>\<open>RecordStampFromBuiltFile\<close> (not among
  the sources). The spec: the buffer "is written verbatim to the node's output path,
  replacing any existing content" ("empty file if stdout was empty"), and "the node's build
  stamp is refreshed from the resulting artifact's modification time".
\<close>

definition FileStream_Open_WRITE_ONLY :: "World \<Rightarrow> string \<Rightarrow> World" where
  "FileStream_Open_WRITE_ONLY w name = w\<lparr> fileSystem := (fileSystem w)(name \<mapsto> []) \<rparr>"

definition FileStream_WriteBuffer :: "World \<Rightarrow> string \<Rightarrow> string \<Rightarrow> World" where
  "FileStream_WriteBuffer w name buffer =
     w\<lparr> fileSystem := (fileSystem w)(name \<mapsto>
          (case fileSystem w name of None \<Rightarrow> buffer | Some old \<Rightarrow> old @ buffer)) \<rparr>"

definition RecordStampFromBuiltFile :: "World \<Rightarrow> ExecNode \<Rightarrow> ExecNode" where
  "RecordStampFromBuiltFile w n = n\<lparr> m_Stamp := fileTimes w (m_Name n) \<rparr>"

definition FLOG :: "World \<Rightarrow> LogEntry \<Rightarrow> World" where
  "FLOG w entry = w\<lparr> flog := flog w @ [entry] \<rparr>"

definition DumpOutput :: "World \<Rightarrow> string \<Rightarrow> World" where
  "DumpOutput w buffer = w\<lparr> jobOutput := jobOutput w @ [buffer] \<rparr>"

text \<open>
  \<^verbatim>\<open>ExecNode::EmitCompilationMessage\<close>: the text it gives to \<^verbatim>\<open>FLOG_OUTPUT\<close>.
  \<open>executable\<close> is \<^verbatim>\<open>GetExecutable()->GetName()\<close>.
\<close>

definition EmitCompilationMessage :: "Options \<Rightarrow> ExecNode \<Rightarrow> string \<Rightarrow> string \<Rightarrow> string" where
  "EmitCompilationMessage opts n executable args =
     (if m_ShowCommandSummary opts then ''Run: '' @ m_Name n @ newline else [])
     @ (if m_ShowCommandLines opts
        then executable @ '' '' @ args @ newline
          @ ''WorkingDir: '' @ m_ExecWorkingDir n @ newline
          @ ''ExpectedReturnCode: '' @ dec_int (sint (m_ExecReturnCode n)) @ newline
        else [])"

text \<open>
  The process run of one build of \<open>n\<close>: \<open>DoBuild\<close>'s arguments to \<^verbatim>\<open>Spawn\<close> and
  \<^verbatim>\<open>ReadAllData\<close>. \<^verbatim>\<open>GetExecutable()\<close> is \<^verbatim>\<open>m_StaticDependencies[ 0 ]\<close>.
\<close>

definition spawned :: "Env \<Rightarrow> ExecNode \<Rightarrow> Node \<Rightarrow> ProcessRun" where
  "spawned env n executable =
     process env (m_Name executable) (GetFullArgs n [])
       (if m_ExecWorkingDir n = [] then None else Some (m_ExecWorkingDir n))
       (m_Environment n)
       (m_ProcessTimeoutSecs (options env) * 1000)
       (m_ProcessOutputTimeoutSecs (options env) * 1000)"

text \<open>
  \<open>DoBuild\<close>, statement by statement. A node without static dependencies has no
  \<^verbatim>\<open>GetExecutable()\<close>: the read of \<^verbatim>\<open>m_StaticDependencies[ 0 ]\<close> asserts.
\<close>

definition DoBuild ::
  "Env \<Rightarrow> World \<Rightarrow> ExecNode \<Rightarrow> error + (BuildResult \<times> World \<times> ExecNode)" where
  "DoBuild env w n =
     (case m_StaticDependencies n of
        [] \<Rightarrow> Inl AssertionFailure
      | executable # _ \<Rightarrow>
         (let fullArgs = GetFullArgs n [];
              w1 = FLOG w (FLOG_OUTPUT
                     (EmitCompilationMessage (options env) n (m_Name executable) fullArgs));
              p = spawned env n executable
          in if \<not> spawnOK p then
               (if HasAborted (afterSpawn p) then Inr (NODE_RESULT_FAILED, w1, n)
                else Inr (NODE_RESULT_FAILED,
                       FLOG w1 (FLOG_ERROR
                         (''Failed to spawn process for '' @ [CHR 0x27] @ m_Name n @ [CHR 0x27])),
                       n))
             else if exitReason p = PROCESS_EXIT_ABORTED then Inr (NODE_RESULT_FAILED, w1, n)
             else
               (let buildFailed =
                      (exitReason p \<noteq> PROCESS_EXIT_NORMAL \<or> exitCode p \<noteq> m_ExecReturnCode n);
                    w2 = (if buildFailed \<or> m_ExecAlwaysShowOutput n
                              \<or> m_ShowCommandOutput (options env)
                          then DumpOutput (DumpOutput w1 (memOut p)) (memErr p)
                          else w1)
                in if buildFailed then
                     (let errorStr =
                            (if exitReason p = PROCESS_EXIT_NORMAL
                             then ERROR_STR env (exitCode p)
                             else ExitReasonToString (exitReason p))
                      in Inr (NODE_RESULT_FAILED,
                           FLOG w2 (FLOG_ERROR
                             (''Execution failed. Error: '' @ errorStr @ '' Target: ''
                                @ [CHR 0x27] @ m_Name n @ [CHR 0x27])),
                           n))
                   else
                     (let w3 = (if m_ExecUseStdOutAsOutput n = True
                                then (let f = FileStream_Open_WRITE_ONLY w2 (m_Name n)
                                      in if (memOut p = []) = False
                                         then FileStream_WriteBuffer f (m_Name n) (memOut p)
                                         else f)
                                else w2)
                      in Inr (NODE_RESULT_OK, w3, RecordStampFromBuiltFile w3 n)))))"

section \<open>Notions the properties are stated with\<close>

text \<open>Entries joined by exactly one space: none before the first, none after the last.\<close>

fun joinSp :: "string list \<Rightarrow> string" where
  "joinSp [] = []"
| "joinSp (x # xs) = (if xs = [] then x else x @ '' '' @ joinSp xs)"

text \<open>
  The names one static dependency stands for: the files of a directory list, in the
  listing's order, and the node's own name otherwise.
\<close>

definition depNames :: "Node \<Rightarrow> string list" where
  "depNames d = (if m_Type d = DIRECTORY_LIST_NODE then m_Files d else [m_Name d])"

text \<open>The text a run of entries adds to the command line, given the \<^verbatim>\<open>first\<close> flag.\<close>

definition emit :: "bool \<Rightarrow> string list \<Rightarrow> string" where
  "emit first es = (if es = [] then [] else (if first then [] else '' '') @ joinSp es)"

text \<open>Both captured buffers were given to \<^verbatim>\<open>Node::DumpOutput\<close>, stdout first.\<close>

definition outputDumped :: "World \<Rightarrow> World \<Rightarrow> ProcessRun \<Rightarrow> bool" where
  "outputDumped w w' p = (jobOutput w' = jobOutput w @ [memOut p, memErr p])"

text \<open>What the caller of \<open>DoBuild\<close> gets back: the \<^verbatim>\<open>Node::BuildResult\<close>.\<close>

definition resultOf :: "error + (BuildResult \<times> World \<times> ExecNode) \<Rightarrow> BuildResult option" where
  "resultOf r = (case r of Inl e \<Rightarrow> None | Inr (res, w, n) \<Rightarrow> Some res)"

text \<open>A token of a template: not empty and free of whitespace.\<close>

definition isToken :: "string \<Rightarrow> bool" where
  "isToken t = (t \<noteq> [] \<and> list_all (\<lambda>c. \<not> isWhitespace c) t)"

text \<open>
  The input names of a node: the names its static dependencies after the first stand
  for, in order.
\<close>

definition inputNames :: "ExecNode \<Rightarrow> string list" where
  "inputNames n = concat (map depNames (drop 1 (m_StaticDependencies n)))"

text \<open>
  What \<open>DoBuild\<close> sees of a cancellation: \<^verbatim>\<open>Spawn\<close> failed and \<^verbatim>\<open>HasAborted()\<close>
  holds, or \<^verbatim>\<open>WaitForExit\<close> returned Aborted.
\<close>

definition cancelled :: "ProcessRun \<Rightarrow> bool" where
  "cancelled r =
     ((\<not> spawnOK r \<and> HasAborted (afterSpawn r))
      \<or> (spawnOK r \<and> exitReason r = PROCESS_EXIT_ABORTED))"

section \<open>Example nodes, processes and worlds\<close>

definition tool :: Node where
  "tool = FileNode_ctor ''tool''"

definition a_c :: Node where
  "a_c = FileNode_ctor ''a.c''"

definition b_c :: Node where
  "b_c = FileNode_ctor ''b.c''"

definition compileNode :: ExecNode where
  "compileNode = (ExecNode_ctor ''out.o'')
     \<lparr> m_ExecArguments := ''-o %2 %1'', m_ExecReturnCode := 3, m_NumExecInputFiles := 2,
       m_StaticDependencies := [tool, a_c, b_c] \<rparr>"

definition quietOptions :: Options where
  "quietOptions =
     \<lparr> m_ShowCommandOutput = False, m_ShowCommandSummary = False, m_ShowCommandLines = False,
       m_ProcessTimeoutSecs = 0, m_ProcessOutputTimeoutSecs = 0 \<rparr>"

definition envWith :: "ProcessRun \<Rightarrow> Env" where
  "envWith r =
     \<lparr> options = quietOptions, process = (\<lambda>executable args workingDir environment t1 t2. r),
       ERROR_STR = (\<lambda>code. dec_int (sint code)) \<rparr>"

definition exited :: "uint8_t \<Rightarrow> int32_t \<Rightarrow> string \<Rightarrow> ProcessRun" where
  "exited reason code out =
     \<lparr> spawnOK = True, afterSpawn = \<lparr> m_ExitReason = PROCESS_EXIT_UNDEFINED \<rparr>,
       memOut = out, memErr = ''warn'', exitReason = reason, exitCode = code \<rparr>"

definition oldWorld :: World where
  "oldWorld =
     \<lparr> flog = [], jobOutput = [], fileSystem = [''out.o'' \<mapsto> ''old''], fileTimes = (\<lambda>name. 7) \<rparr>"

definition srcDir :: Node where
  "srcDir = \<lparr> m_Name = ''src/'', m_Type = DIRECTORY_LIST_NODE, IsAFile = False, m_Stamp = 0,
              m_Files = [''src/x.c'', ''src/y.c''] \<rparr>"

definition listingNode :: ExecNode where
  "listingNode = (ExecNode_ctor ''out.txt'')
     \<lparr> m_ExecInputPath := [''src/''], m_ExecArguments := ''/I'' @ quote @ ''%1'' @ quote,
       m_DynamicDependencies := [FileNode_ctor ''stale.c''] \<rparr>"

definition listingNode' :: ExecNode where
  "listingNode' = listingNode
     \<lparr> m_NumExecInputFiles := 1, m_StaticDependencies := [tool, a_c, srcDir] \<rparr>"

definition includeNode :: ExecNode where
  "includeNode = listingNode'
     \<lparr> m_ExecArguments := ''cl /I'' @ quote @ ''%1'' @ quote @ '' -c'' \<rparr>"







section \<open>Lemmas\<close>

lemmas example_defs = tool_def a_c_def b_c_def compileNode_def quietOptions_def envWith_def
  exited_def oldWorld_def ExecNode_ctor_def FileNode_ctor_def

lemmas ExitReason_defs =
  PROCESS_EXIT_UNDEFINED_def PROCESS_EXIT_NORMAL_def PROCESS_EXIT_ABORTED_def
  PROCESS_EXIT_TIMEOUT_def PROCESS_EXIT_TIMEOUT_INACTIVE_def

lemma spawned_envWith: "spawned (envWith r) n executable = r"
  by (simp add: spawned_def envWith_def)

lemma compileNode_deps: "m_StaticDependencies compileNode = tool # [a_c, b_c]"
  by (simp add: compileNode_def)

lemma FLOG_frame [simp]:
  "jobOutput (FLOG w e) = jobOutput w" "fileSystem (FLOG w e) = fileSystem w"
  "fileTimes (FLOG w e) = fileTimes w" "flog (FLOG w e) = flog w @ [e]"
  by (simp_all add: FLOG_def)

lemma DumpOutput_frame [simp]:
  "jobOutput (DumpOutput w b) = jobOutput w @ [b]" "fileSystem (DumpOutput w b) = fileSystem w"
  "fileTimes (DumpOutput w b) = fileTimes w" "flog (DumpOutput w b) = flog w"
  by (simp_all add: DumpOutput_def)

lemma FileStream_frame [simp]:
  "jobOutput (FileStream_Open_WRITE_ONLY w name) = jobOutput w"
  "flog (FileStream_Open_WRITE_ONLY w name) = flog w"
  "fileSystem (FileStream_Open_WRITE_ONLY w name) = (fileSystem w)(name \<mapsto> [])"
  "jobOutput (FileStream_WriteBuffer w name b) = jobOutput w"
  "flog (FileStream_WriteBuffer w name b) = flog w"
  "fileSystem (FileStream_WriteBuffer w name b) =
     (fileSystem w)(name \<mapsto> (case fileSystem w name of None \<Rightarrow> b | Some old \<Rightarrow> old @ b))"
  by (simp_all add: FileStream_Open_WRITE_ONLY_def FileStream_WriteBuffer_def)

lemma DoBuild_Cons:
  "m_StaticDependencies n = executable # rest \<Longrightarrow>
   DoBuild env w n =
     (let fullArgs = GetFullArgs n [];
          w1 = FLOG w (FLOG_OUTPUT
                 (EmitCompilationMessage (options env) n (m_Name executable) fullArgs));
          p = spawned env n executable
      in if \<not> spawnOK p then
           (if HasAborted (afterSpawn p) then Inr (NODE_RESULT_FAILED, w1, n)
            else Inr (NODE_RESULT_FAILED,
                   FLOG w1 (FLOG_ERROR
                     (''Failed to spawn process for '' @ [CHR 0x27] @ m_Name n @ [CHR 0x27])),
                   n))
         else if exitReason p = PROCESS_EXIT_ABORTED then Inr (NODE_RESULT_FAILED, w1, n)
         else
           (let buildFailed =
                  (exitReason p \<noteq> PROCESS_EXIT_NORMAL \<or> exitCode p \<noteq> m_ExecReturnCode n);
                w2 = (if buildFailed \<or> m_ExecAlwaysShowOutput n
                          \<or> m_ShowCommandOutput (options env)
                      then DumpOutput (DumpOutput w1 (memOut p)) (memErr p)
                      else w1)
            in if buildFailed then
                 (let errorStr =
                        (if exitReason p = PROCESS_EXIT_NORMAL
                         then ERROR_STR env (exitCode p)
                         else ExitReasonToString (exitReason p))
                  in Inr (NODE_RESULT_FAILED,
                       FLOG w2 (FLOG_ERROR
                         (''Execution failed. Error: '' @ errorStr @ '' Target: ''
                            @ [CHR 0x27] @ m_Name n @ [CHR 0x27])),
                       n))
               else
                 (let w3 = (if m_ExecUseStdOutAsOutput n = True
                            then (let f = FileStream_Open_WRITE_ONLY w2 (m_Name n)
                                  in if (memOut p = []) = False
                                     then FileStream_WriteBuffer f (m_Name n) (memOut p)
                                     else f)
                            else w2)
                  in Inr (NODE_RESULT_OK, w3, RecordStampFromBuiltFile w3 n))))"
  by (simp add: DoBuild_def)

lemma DoBuild_cancelled:
  assumes "m_StaticDependencies n = executable # rest"
    and "(\<not> spawnOK (spawned env n executable) \<and> HasAborted (afterSpawn (spawned env n executable)))
         \<or> (spawnOK (spawned env n executable)
            \<and> exitReason (spawned env n executable) = PROCESS_EXIT_ABORTED)"
  shows "DoBuild env w n =
           Inr (NODE_RESULT_FAILED,
                FLOG w (FLOG_OUTPUT (EmitCompilationMessage (options env) n (m_Name executable)
                         (GetFullArgs n []))),
                n)"
  using assms(2) by (auto simp: DoBuild_Cons [OF assms(1)] Let_def)

lemma emit_Nil [simp]: "emit first [] = []"
  by (simp add: emit_def)

lemma emit_Cons: "emit first (e # es) = (if first then [] else '' '') @ e @ emit False es"
  by (simp add: emit_def)

lemma emit_append: "emit first (xs @ ys) = emit first xs @ emit (first \<and> xs = []) ys"
  by (induction xs arbitrary: first) (simp_all add: emit_Cons)

lemma GetInputFiles_files_eq:
  "GetInputFiles_files pre post files first fullArgs =
     (first \<and> files = [], fullArgs @ emit first (map (\<lambda>f. pre @ f @ post) files))"
  by (induction files arbitrary: first fullArgs) (simp_all add: emit_Cons)

lemma GetInputFiles_loop_eq:
  "GetInputFiles_loop deps pre post i first fullArgs =
     fullArgs @ emit first (map (\<lambda>f. pre @ f @ post) (concat (map depNames (drop i deps))))"
proof (induction deps pre post i first fullArgs rule: GetInputFiles_loop.induct)
  case (1 deps pre post i first fullArgs)
  show ?case
  proof (cases "i < length deps")
    case False
    then show ?thesis
      by (simp add: GetInputFiles_loop.simps [of deps pre post i])
  next
    case True
    then have d: "drop i deps = deps ! i # drop (i + 1) deps"
      by (simp add: Cons_nth_drop_Suc)
    show ?thesis
    proof (cases "m_Type (deps ! i) = DIRECTORY_LIST_NODE")
      case dl: True
      show ?thesis
        using True dl "1.IH"(1) [OF True dl GetInputFiles_files_eq [symmetric]]
        by (simp add: GetInputFiles_loop.simps [of deps pre post i] GetInputFiles_files_eq d
            depNames_def emit_append)
    next
      case nd: False
      show ?thesis
        using True nd "1.IH"(2) [OF True nd]
        by (simp add: GetInputFiles_loop.simps [of deps pre post i] d depNames_def emit_Cons)
    qed
  qed
qed

lemma emit_True: "emit True es = joinSp es"
  by (cases es) (simp_all add: emit_def)

lemma GetInputFiles_eq:
  "GetInputFiles n fullArgs pre post =
     fullArgs @ joinSp (map (\<lambda>f. pre @ f @ post) (concat (map depNames (drop 1 (m_StaticDependencies n)))))"
  by (simp add: GetInputFiles_def GetInputFiles_loop_eq emit_True)

lemma Initialize_True_deps:
  "Initialize preBuildOK executableResult execInputFilesResult execInputPathsResult n
     = Inr (True, n')
   \<Longrightarrow> \<exists>e ins paths. executableResult = Some [e] \<and> execInputFilesResult = Some ins
         \<and> execInputPathsResult = Some paths
         \<and> m_StaticDependencies n' = m_StaticDependencies n @ e # ins @ paths"
  by (auto simp: Initialize_def Let_def length_Suc_conv split: if_splits option.splits)








lemma resultOf_Inr: "resultOf (Inr (res, w, n)) = Some res"
  by (simp add: resultOf_def)

lemma compileNode_fails_on_0:
  "resultOf (DoBuild (envWith (exited PROCESS_EXIT_NORMAL 0 out)) w compileNode)
     = Some NODE_RESULT_FAILED"
  unfolding DoBuild_Cons [OF compileNode_deps] spawned_envWith
  by (simp add: Let_def exited_def ExitReason_defs resultOf_def compileNode_def ExecNode_ctor_def)

lemma compileNode_passes_on_3:
  "resultOf (DoBuild (envWith (exited PROCESS_EXIT_NORMAL 3 out)) w compileNode)
     = Some NODE_RESULT_OK"
  unfolding DoBuild_Cons [OF compileNode_deps] spawned_envWith
  by (simp add: Let_def exited_def ExitReason_defs resultOf_def compileNode_def ExecNode_ctor_def)


lemma Tokenize_from_run:
  "list_all (\<lambda>c. \<not> isWhitespace c) t \<Longrightarrow> Tokenize_from cur (t @ rest) = Tokenize_from (cur @ t) rest"
  by (induction t arbitrary: cur) simp_all

lemma Tokenize_from_joinSp:
  "list_all isToken ts \<Longrightarrow> Tokenize_from [] (joinSp ts) = ts"
proof (induction ts)
  case Nil
  then show ?case by simp
next
  case (Cons t ts)
  then have t: "t \<noteq> []" "list_all (\<lambda>c. \<not> isWhitespace c) t"
    by (simp_all add: isToken_def)
  from Cons.prems have ts: "list_all isToken ts"
    by simp
  show ?case
  proof (cases "ts = []")
    case True
    with t Tokenize_from_run [OF t(2), of "[]" "[]"] show ?thesis by simp
  next
    case False
    have "Tokenize_from [] (t @ CHR '' '' # joinSp ts) = Tokenize_from t (CHR '' '' # joinSp ts)"
      using Tokenize_from_run [OF t(2), of "[]"] by simp
    also have "\<dots> = t # Tokenize_from [] (joinSp ts)"
      using t(1) by (simp add: isWhitespace_def)
    finally show ?thesis
      using False Cons.IH [OF ts] by simp
  qed
qed

lemma Tokenize_joinSp: "list_all isToken ts \<Longrightarrow> Tokenize (joinSp ts) = ts"
  by (simp add: Tokenize_def Tokenize_from_joinSp)

lemma GetFullArgs_tokens_append:
  "GetFullArgs_tokens n (ts @ us) fullArgs = GetFullArgs_tokens n us (GetFullArgs_tokens n ts fullArgs)"
  by (induction ts arbitrary: fullArgs) simp_all

lemma EndsWith_quoted_1:
  "\<not> EndsWith (p @ quote @ ''%1'' @ quote) ''%1''"
  "EndsWith (p @ quote @ ''%1'' @ quote) (quote @ ''%1'' @ quote)"
  "take (length (p @ quote @ ''%1'' @ quote) - 3) (p @ quote @ ''%1'' @ quote) = p @ quote"
  by (simp_all add: EndsWith_def quote_def)

lemma GetFullArgs_token_quoted_1:
  "GetFullArgs_token n fullArgs (p @ quote @ ''%1'' @ quote) =
     fullArgs @ joinSp (map (\<lambda>f. p @ quote @ f @ quote) (inputNames n)) @ '' ''"
proof -
  define token where "token = p @ quote @ ''%1'' @ quote"
  have t: "\<not> EndsWith token ''%1''" "EndsWith token (quote @ ''%1'' @ quote)"
    "take (length token - 3) token = p @ quote"
    unfolding token_def by (rule EndsWith_quoted_1)+
  have "GetFullArgs_token n fullArgs token =
      GetInputFiles n fullArgs (p @ quote) quote @ '' ''"
    unfolding GetFullArgs_token_def by (simp only: t if_True if_False)
  then show ?thesis
    unfolding token_def by (simp add: GetInputFiles_eq inputNames_def)
qed

lemma isToken_quoted_1: "list_all (\<lambda>c. \<not> isWhitespace c) p \<Longrightarrow> isToken (p @ quote @ ''%1'' @ quote)"
  by (simp add: isToken_def quote_def isWhitespace_def)

lemma GetFullArgs_o_2_1:
  "m_ExecArguments n = ''-o %2 %1'' \<Longrightarrow>
   GetFullArgs n fullArgs = fullArgs @ ''-o '' @ m_Name n @ '' '' @ joinSp (inputNames n) @ '' ''"
  by (simp add: GetFullArgs_def Tokenize_def isWhitespace_def GetFullArgs_token_def EndsWith_def
      quote_def GetInputFiles_eq inputNames_def)










section \<open>Exit reason names\<close>

text \<open>
  C9. \<^verbatim>\<open>ExitReasonToString\<close> sends the five classification values Undefined, Normal,
  Aborted, Timeout and TimeoutInactive to the strings "Undefined", "Normal", "Aborted",
  "Process Timeout" and "Process Timeout Inactive", in that order.
\<close>

theorem ExitReasonToString_names:
  "ExitReasonToString PROCESS_EXIT_UNDEFINED = ''Undefined''
   \<and> ExitReasonToString PROCESS_EXIT_NORMAL = ''Normal''
   \<and> ExitReasonToString PROCESS_EXIT_ABORTED = ''Aborted''
   \<and> ExitReasonToString PROCESS_EXIT_TIMEOUT = ''Process Timeout''
   \<and> ExitReasonToString PROCESS_EXIT_TIMEOUT_INACTIVE = ''Process Timeout Inactive''"
  by (simp add: ExitReasonToString_def ExitReason_defs)

section \<open>The result of a build\<close>

text \<open>
  C1. For every expected exit code \<open>m_ExecReturnCode n\<close> and every actual exit code, a build
  of a node that has its executable returns \<open>NODE_RESULT_OK\<close> if and only if the process
  was spawned, exited with reason Normal and with the expected code; in every other case
  (failed spawn, another exit reason, another code) it returns \<open>NODE_RESULT_FAILED\<close>.
\<close>

theorem DoBuild_success_iff:
  assumes "m_StaticDependencies n = executable # rest"
  shows "((\<exists>w' n'. DoBuild env w n = Inr (NODE_RESULT_OK, w', n')) \<longleftrightarrow>
            spawnOK (spawned env n executable)
            \<and> exitReason (spawned env n executable) = PROCESS_EXIT_NORMAL
            \<and> exitCode (spawned env n executable) = m_ExecReturnCode n)
         \<and> ((\<exists>w' n'. DoBuild env w n = Inr (NODE_RESULT_FAILED, w', n')) \<longleftrightarrow>
            \<not> (spawnOK (spawned env n executable)
               \<and> exitReason (spawned env n executable) = PROCESS_EXIT_NORMAL
               \<and> exitCode (spawned env n executable) = m_ExecReturnCode n))"
  by (auto simp: DoBuild_Cons [OF assms] Let_def ExitReason_defs)

text \<open>
  At the node expecting code 3: a normal exit with 3 succeeds, a normal exit with 0 fails,
  and a timeout fails though the code is 3.
\<close>

theorem DoBuild_success_iff_witness:
  "m_StaticDependencies compileNode = tool # [a_c, b_c]
   \<and> (\<exists>w' n'. DoBuild (envWith (exited PROCESS_EXIT_NORMAL 3 ''hello'')) oldWorld compileNode
         = Inr (NODE_RESULT_OK, w', n'))
   \<and> (\<exists>w' n'. DoBuild (envWith (exited PROCESS_EXIT_NORMAL 0 ''hello'')) oldWorld compileNode
         = Inr (NODE_RESULT_FAILED, w', n'))
   \<and> (\<exists>w' n'. DoBuild (envWith (exited PROCESS_EXIT_TIMEOUT 3 ''hello'')) oldWorld compileNode
         = Inr (NODE_RESULT_FAILED, w', n'))"
proof -
  have deps: "m_StaticDependencies compileNode = tool # [a_c, b_c]"
    by (simp add: compileNode_def)
  show ?thesis
    using deps
      DoBuild_success_iff [OF deps, of "envWith (exited PROCESS_EXIT_NORMAL 3 ''hello'')" oldWorld, unfolded spawned_envWith]
      DoBuild_success_iff [OF deps, of "envWith (exited PROCESS_EXIT_NORMAL 0 ''hello'')" oldWorld, unfolded spawned_envWith]
      DoBuild_success_iff [OF deps, of "envWith (exited PROCESS_EXIT_TIMEOUT 3 ''hello'')" oldWorld, unfolded spawned_envWith]
    by (simp add: exited_def compileNode_def ExitReason_defs)
qed

section \<open>An aborted process\<close>

text \<open>
  C2. If the process aborted (\<^verbatim>\<open>WaitForExit\<close> returns Aborted, or the spawn failed and
  \<^verbatim>\<open>HasAborted()\<close> holds), the build returns \<open>NODE_RESULT_FAILED\<close> at once: nothing is
  given to \<^verbatim>\<open>DumpOutput\<close>, no file is written, the node (and so its stamp) is unchanged,
  and the log gains the compilation message only.
\<close>

theorem DoBuild_aborted_no_output_handling:
  assumes "m_StaticDependencies n = executable # rest"
    and "(\<not> spawnOK (spawned env n executable) \<and> HasAborted (afterSpawn (spawned env n executable)))
         \<or> (spawnOK (spawned env n executable)
            \<and> exitReason (spawned env n executable) = PROCESS_EXIT_ABORTED)"
  shows "\<exists>w'. DoBuild env w n = Inr (NODE_RESULT_FAILED, w', n)
           \<and> jobOutput w' = jobOutput w
           \<and> fileSystem w' = fileSystem w
           \<and> flog w' = flog w @ [FLOG_OUTPUT (EmitCompilationMessage (options env) n
                                   (m_Name executable) (GetFullArgs n []))]"
  by (simp add: DoBuild_cancelled [OF assms])

text \<open>
  An aborted build of a node that takes stdout as its output: the old file stays.
\<close>

theorem DoBuild_aborted_no_output_handling_witness:
  "\<exists>w'. DoBuild (envWith (exited PROCESS_EXIT_ABORTED 0 ''partial'')) oldWorld
           (compileNode\<lparr> m_ExecUseStdOutAsOutput := True \<rparr>)
         = Inr (NODE_RESULT_FAILED, w', compileNode\<lparr> m_ExecUseStdOutAsOutput := True \<rparr>)
       \<and> jobOutput w' = [] \<and> fileSystem w' = [''out.o'' \<mapsto> ''old''] \<and> flog w' = [FLOG_OUTPUT []]"
proof -
  have deps: "m_StaticDependencies (compileNode\<lparr> m_ExecUseStdOutAsOutput := True \<rparr>) = tool # [a_c, b_c]"
    by (simp add: compileNode_def)
  have ab: "(\<not> spawnOK (exited PROCESS_EXIT_ABORTED 0 ''partial'')
              \<and> HasAborted (afterSpawn (exited PROCESS_EXIT_ABORTED 0 ''partial'')))
            \<or> (spawnOK (exited PROCESS_EXIT_ABORTED 0 ''partial'')
              \<and> exitReason (exited PROCESS_EXIT_ABORTED 0 ''partial'') = PROCESS_EXIT_ABORTED)"
    by (simp add: exited_def)
  show ?thesis
    using DoBuild_aborted_no_output_handling [OF deps, of "envWith (exited PROCESS_EXIT_ABORTED 0 ''partial'')" oldWorld,
        unfolded spawned_envWith, OF ab]
    by (simp add: oldWorld_def EmitCompilationMessage_def envWith_def quietOptions_def)
qed

section \<open>When the captured output is shown\<close>

text \<open>
  C5, as the claim states it, fails: a node with \<^verbatim>\<open>ExecAlwaysShowOutput\<close> set whose
  process aborted gets \<open>NODE_RESULT_FAILED\<close>, and neither buffer reaches
  \<^verbatim>\<open>DumpOutput\<close>; the return on Aborted comes before the test of the flags.
\<close>

theorem DoBuild_dump_counterexample:
  "m_ExecAlwaysShowOutput (compileNode\<lparr> m_ExecAlwaysShowOutput := True \<rparr>)
   \<and> resultOf (DoBuild (envWith (exited PROCESS_EXIT_ABORTED 0 ''partial'')) oldWorld
        (compileNode\<lparr> m_ExecAlwaysShowOutput := True \<rparr>)) = Some NODE_RESULT_FAILED
   \<and> \<not> (\<exists>w' n'. DoBuild (envWith (exited PROCESS_EXIT_ABORTED 0 ''partial'')) oldWorld
           (compileNode\<lparr> m_ExecAlwaysShowOutput := True \<rparr>) = Inr (NODE_RESULT_FAILED, w', n')
         \<and> outputDumped oldWorld w' (exited PROCESS_EXIT_ABORTED 0 ''partial''))"
proof -
  have deps: "m_StaticDependencies (compileNode\<lparr> m_ExecAlwaysShowOutput := True \<rparr>) = tool # [a_c, b_c]"
    by (simp add: compileNode_def)
  have ab: "(\<not> spawnOK (exited PROCESS_EXIT_ABORTED 0 ''partial'')
              \<and> HasAborted (afterSpawn (exited PROCESS_EXIT_ABORTED 0 ''partial'')))
            \<or> (spawnOK (exited PROCESS_EXIT_ABORTED 0 ''partial'')
              \<and> exitReason (exited PROCESS_EXIT_ABORTED 0 ''partial'') = PROCESS_EXIT_ABORTED)"
    by (simp add: exited_def)
  show ?thesis
    using DoBuild_cancelled [OF deps, of "envWith (exited PROCESS_EXIT_ABORTED 0 ''partial'')",
        unfolded spawned_envWith, OF ab, of oldWorld]
    by (simp add: resultOf_def outputDumped_def compileNode_def)
qed

text \<open>
  C5, amended. When the process was spawned and its exit reason is not Aborted, both
  captured buffers are given to \<^verbatim>\<open>DumpOutput\<close> if and only if the build failed, or the
  node's \<^verbatim>\<open>ExecAlwaysShowOutput\<close> is set, or the option \<^verbatim>\<open>m_ShowCommandOutput\<close>
  is set, and nothing is dumped otherwise. When the spawn failed or the process aborted,
  nothing is dumped, whatever the flags.
\<close>

theorem DoBuild_dump_iff:
  assumes "m_StaticDependencies n = executable # rest"
  shows "(spawnOK (spawned env n executable)
            \<and> exitReason (spawned env n executable) \<noteq> PROCESS_EXIT_ABORTED \<longrightarrow>
          (\<exists>res w' n'. DoBuild env w n = Inr (res, w', n')
             \<and> (outputDumped w w' (spawned env n executable) \<longleftrightarrow>
                  res = NODE_RESULT_FAILED \<or> m_ExecAlwaysShowOutput n
                  \<or> m_ShowCommandOutput (options env))
             \<and> (jobOutput w' = jobOutput w \<longleftrightarrow>
                  \<not> (res = NODE_RESULT_FAILED \<or> m_ExecAlwaysShowOutput n
                     \<or> m_ShowCommandOutput (options env)))))
         \<and> (\<not> spawnOK (spawned env n executable)
            \<or> exitReason (spawned env n executable) = PROCESS_EXIT_ABORTED \<longrightarrow>
          (\<exists>w'. DoBuild env w n = Inr (NODE_RESULT_FAILED, w', n)
             \<and> jobOutput w' = jobOutput w))"
  by (auto simp: DoBuild_Cons [OF assms] Let_def outputDumped_def RecordStampFromBuiltFile_def)

text \<open>
  At the quiet node expecting code 3: exit code 0 fails and dumps stdout then stderr;
  exit code 3 passes and dumps nothing.
\<close>

theorem DoBuild_dump_iff_witness:
  "(\<exists>w' n'. DoBuild (envWith (exited PROCESS_EXIT_NORMAL 0 ''hello'')) oldWorld compileNode
         = Inr (NODE_RESULT_FAILED, w', n') \<and> jobOutput w' = [''hello'', ''warn''])
   \<and> (\<exists>w' n'. DoBuild (envWith (exited PROCESS_EXIT_NORMAL 3 ''hello'')) oldWorld compileNode
         = Inr (NODE_RESULT_OK, w', n') \<and> jobOutput w' = [])"
proof -
  have quiet: "\<not> m_ExecAlwaysShowOutput compileNode"
    "\<not> m_ShowCommandOutput (options (envWith r))" for r
    by (simp_all add: compileNode_def ExecNode_ctor_def envWith_def quietOptions_def)
  have spawnedOK: "spawnOK (exited PROCESS_EXIT_NORMAL c ''hello'')
      \<and> exitReason (exited PROCESS_EXIT_NORMAL c ''hello'') \<noteq> PROCESS_EXIT_ABORTED" for c
    by (simp add: exited_def ExitReason_defs)
  have a: "\<exists>w' n'. DoBuild (envWith (exited PROCESS_EXIT_NORMAL 0 ''hello'')) oldWorld compileNode
         = Inr (NODE_RESULT_FAILED, w', n') \<and> jobOutput w' = [''hello'', ''warn'']"
    using DoBuild_dump_iff [OF compileNode_deps,
        of "envWith (exited PROCESS_EXIT_NORMAL 0 ''hello'')" oldWorld, unfolded spawned_envWith]
      spawnedOK [of 0] compileNode_fails_on_0 [of "''hello''" oldWorld] quiet
    by (auto simp: resultOf_Inr outputDumped_def exited_def oldWorld_def)
  have b: "\<exists>w' n'. DoBuild (envWith (exited PROCESS_EXIT_NORMAL 3 ''hello'')) oldWorld compileNode
         = Inr (NODE_RESULT_OK, w', n') \<and> jobOutput w' = []"
    using DoBuild_dump_iff [OF compileNode_deps,
        of "envWith (exited PROCESS_EXIT_NORMAL 3 ''hello'')" oldWorld, unfolded spawned_envWith]
      spawnedOK [of 3] compileNode_passes_on_3 [of "''hello''" oldWorld] quiet
    by (auto simp: resultOf_Inr outputDumped_def exited_def oldWorld_def)
  from a b show ?thesis by blast
qed

section \<open>Stdout as the node's output\<close>

text \<open>
  C6. When the process was spawned, exited normally with the expected code, and the node has
  \<^verbatim>\<open>ExecUseStdOutAsOutput\<close> set, the build returns \<open>NODE_RESULT_OK\<close> and the file at the
  node's own name holds exactly the captured stdout, whatever it held before (the empty
  string when stdout was empty); no other file changes.
\<close>

theorem DoBuild_stdout_as_output:
  assumes "m_StaticDependencies n = executable # rest"
    and "spawnOK (spawned env n executable)"
    and "exitReason (spawned env n executable) = PROCESS_EXIT_NORMAL"
    and "exitCode (spawned env n executable) = m_ExecReturnCode n"
    and "m_ExecUseStdOutAsOutput n"
  shows "\<exists>w' n'. DoBuild env w n = Inr (NODE_RESULT_OK, w', n')
           \<and> fileSystem w' = (fileSystem w)(m_Name n \<mapsto> memOut (spawned env n executable))"
  using assms(2-)
  by (auto simp: DoBuild_Cons [OF assms(1)] Let_def ExitReason_defs)

text \<open>
  The old content of \<open>out.o\<close> is replaced by \<open>hello\<close>, and by the empty file when
  stdout is empty.
\<close>

theorem DoBuild_stdout_as_output_witness:
  "(\<exists>w' n'. DoBuild (envWith (exited PROCESS_EXIT_NORMAL 3 ''hello'')) oldWorld
        (compileNode\<lparr> m_ExecUseStdOutAsOutput := True \<rparr>) = Inr (NODE_RESULT_OK, w', n')
      \<and> fileSystem w' = [''out.o'' \<mapsto> ''hello''])
   \<and> (\<exists>w' n'. DoBuild (envWith (exited PROCESS_EXIT_NORMAL 3 [])) oldWorld
        (compileNode\<lparr> m_ExecUseStdOutAsOutput := True \<rparr>) = Inr (NODE_RESULT_OK, w', n')
      \<and> fileSystem w' = [''out.o'' \<mapsto> []])"
proof -
  have deps: "m_StaticDependencies (compileNode\<lparr> m_ExecUseStdOutAsOutput := True \<rparr>)
      = tool # [a_c, b_c]"
    by (simp add: compileNode_def)
  have ok: "spawnOK (exited PROCESS_EXIT_NORMAL 3 out)"
    "exitReason (exited PROCESS_EXIT_NORMAL 3 out) = PROCESS_EXIT_NORMAL"
    "exitCode (exited PROCESS_EXIT_NORMAL 3 out)
       = m_ExecReturnCode (compileNode\<lparr> m_ExecUseStdOutAsOutput := True \<rparr>)"
    "m_ExecUseStdOutAsOutput (compileNode\<lparr> m_ExecUseStdOutAsOutput := True \<rparr>)" for out
    by (simp_all add: exited_def compileNode_def ExecNode_ctor_def)
  show ?thesis
    using DoBuild_stdout_as_output [OF deps, of "envWith (exited PROCESS_EXIT_NORMAL 3 ''hello'')",
        unfolded spawned_envWith, OF ok, of oldWorld]
      DoBuild_stdout_as_output [OF deps, of "envWith (exited PROCESS_EXIT_NORMAL 3 [])",
        unfolded spawned_envWith, OF ok, of oldWorld]
    by (simp add: oldWorld_def exited_def compileNode_def ExecNode_ctor_def)
qed

section \<open>Cancellation and failure\<close>

text \<open>
  C7, as the claim states it, fails: a cancelled build and a build whose tool exited with
  the wrong code give the caller the same \<^verbatim>\<open>Node::BuildResult\<close>.
\<close>

theorem DoBuild_cancel_not_distinct_counterexample:
  "resultOf (DoBuild (envWith (exited PROCESS_EXIT_ABORTED 0 ''partial'')) oldWorld compileNode)
     = Some NODE_RESULT_FAILED
   \<and> resultOf (DoBuild (envWith (exited PROCESS_EXIT_NORMAL 0 ''hello'')) oldWorld compileNode)
     = Some NODE_RESULT_FAILED
   \<and> \<not> (resultOf (DoBuild (envWith (exited PROCESS_EXIT_ABORTED 0 ''partial'')) oldWorld compileNode)
         \<noteq> resultOf (DoBuild (envWith (exited PROCESS_EXIT_NORMAL 0 ''hello'')) oldWorld compileNode))"
proof -
  have ab: "(\<not> spawnOK (exited PROCESS_EXIT_ABORTED 0 ''partial'')
              \<and> HasAborted (afterSpawn (exited PROCESS_EXIT_ABORTED 0 ''partial'')))
            \<or> (spawnOK (exited PROCESS_EXIT_ABORTED 0 ''partial'')
              \<and> exitReason (exited PROCESS_EXIT_ABORTED 0 ''partial'') = PROCESS_EXIT_ABORTED)"
    by (simp add: exited_def)
  have "resultOf (DoBuild (envWith (exited PROCESS_EXIT_ABORTED 0 ''partial'')) oldWorld compileNode)
     = Some NODE_RESULT_FAILED"
    using DoBuild_cancelled [OF compileNode_deps, of "envWith (exited PROCESS_EXIT_ABORTED 0 ''partial'')",
        unfolded spawned_envWith, OF ab, of oldWorld]
    by (simp add: resultOf_Inr)
  then show ?thesis
    by (simp add: compileNode_fails_on_0)
qed

text \<open>
  C7, amended. When the process reports an abort to \<open>DoBuild\<close> (a failed
  \<^verbatim>\<open>Spawn\<close> with \<^verbatim>\<open>HasAborted()\<close>, or \<^verbatim>\<open>WaitForExit\<close> returning Aborted),
  \<open>DoBuild\<close> returns \<open>NODE_RESULT_FAILED\<close> with the node unchanged, as it does for
  every build that is not a success: the result does not tell a cancelled build from a
  failed one. What differs is what the build does besides: a cancelled build logs the
  compilation message and nothing else; a failed spawn logs one error line after it; a
  build whose process ended otherwise than with the expected code gives both captured
  buffers to \<^verbatim>\<open>DumpOutput\<close> and logs one error line. None of them writes a file.
\<close>

theorem DoBuild_cancel_same_result:
  assumes "m_StaticDependencies n = executable # rest"
  shows "(cancelled (spawned env n executable) \<longrightarrow>
            DoBuild env w n =
              Inr (NODE_RESULT_FAILED,
                   FLOG w (FLOG_OUTPUT (EmitCompilationMessage (options env) n
                             (m_Name executable) (GetFullArgs n []))),
                   n))
         \<and> (\<not> spawnOK (spawned env n executable)
              \<and> \<not> HasAborted (afterSpawn (spawned env n executable)) \<longrightarrow>
            (\<exists>err. DoBuild env w n =
              Inr (NODE_RESULT_FAILED,
                   FLOG (FLOG w (FLOG_OUTPUT (EmitCompilationMessage (options env) n
                                   (m_Name executable) (GetFullArgs n []))))
                     (FLOG_ERROR err),
                   n)))
         \<and> (spawnOK (spawned env n executable)
              \<and> exitReason (spawned env n executable) \<noteq> PROCESS_EXIT_ABORTED
              \<and> (exitReason (spawned env n executable) \<noteq> PROCESS_EXIT_NORMAL
                 \<or> exitCode (spawned env n executable) \<noteq> m_ExecReturnCode n) \<longrightarrow>
            (\<exists>err. DoBuild env w n =
              Inr (NODE_RESULT_FAILED,
                   FLOG (DumpOutput
                          (DumpOutput
                            (FLOG w (FLOG_OUTPUT (EmitCompilationMessage (options env) n
                                       (m_Name executable) (GetFullArgs n []))))
                            (memOut (spawned env n executable)))
                          (memErr (spawned env n executable)))
                     (FLOG_ERROR err),
                   n)))
         \<and> (\<not> (spawnOK (spawned env n executable)
                \<and> exitReason (spawned env n executable) = PROCESS_EXIT_NORMAL
                \<and> exitCode (spawned env n executable) = m_ExecReturnCode n) \<longrightarrow>
            resultOf (DoBuild env w n) = Some NODE_RESULT_FAILED)"
proof -
  have a: "DoBuild env w n =
              Inr (NODE_RESULT_FAILED,
                   FLOG w (FLOG_OUTPUT (EmitCompilationMessage (options env) n
                             (m_Name executable) (GetFullArgs n []))),
                   n)"
    if "cancelled (spawned env n executable)"
    using that DoBuild_cancelled [OF assms, of env w] by (simp add: cancelled_def)
  have b: "\<exists>err. DoBuild env w n =
              Inr (NODE_RESULT_FAILED,
                   FLOG (FLOG w (FLOG_OUTPUT (EmitCompilationMessage (options env) n
                                   (m_Name executable) (GetFullArgs n []))))
                     (FLOG_ERROR err),
                   n)"
    if "\<not> spawnOK (spawned env n executable)"
      "\<not> HasAborted (afterSpawn (spawned env n executable))"
    using that by (auto simp: DoBuild_Cons [OF assms] Let_def)
  have c: "\<exists>err. DoBuild env w n =
              Inr (NODE_RESULT_FAILED,
                   FLOG (DumpOutput
                          (DumpOutput
                            (FLOG w (FLOG_OUTPUT (EmitCompilationMessage (options env) n
                                       (m_Name executable) (GetFullArgs n []))))
                            (memOut (spawned env n executable)))
                          (memErr (spawned env n executable)))
                     (FLOG_ERROR err),
                   n)"
    if "spawnOK (spawned env n executable)"
      "exitReason (spawned env n executable) \<noteq> PROCESS_EXIT_ABORTED"
      "exitReason (spawned env n executable) \<noteq> PROCESS_EXIT_NORMAL
                 \<or> exitCode (spawned env n executable) \<noteq> m_ExecReturnCode n"
    using that by (auto simp: DoBuild_Cons [OF assms] Let_def)
  have d: "resultOf (DoBuild env w n) = Some NODE_RESULT_FAILED"
    if "\<not> (spawnOK (spawned env n executable)
                \<and> exitReason (spawned env n executable) = PROCESS_EXIT_NORMAL
                \<and> exitCode (spawned env n executable) = m_ExecReturnCode n)"
    using that by (auto simp: DoBuild_Cons [OF assms] Let_def resultOf_def ExitReason_defs)
  from a b c d show ?thesis
    by blast
qed

text \<open>
  An aborted run dumps nothing and logs no error; a run that exits with the wrong code
  dumps stdout and stderr and logs one error.
\<close>

theorem DoBuild_cancel_same_result_witness:
  "(\<exists>w'. DoBuild (envWith (exited PROCESS_EXIT_ABORTED 0 ''partial'')) oldWorld compileNode
        = Inr (NODE_RESULT_FAILED, w', compileNode)
      \<and> jobOutput w' = [] \<and> flog w' = [FLOG_OUTPUT []]
      \<and> fileSystem w' = fileSystem oldWorld)
   \<and> (\<exists>w' err. DoBuild (envWith (exited PROCESS_EXIT_NORMAL 0 ''partial'')) oldWorld compileNode
        = Inr (NODE_RESULT_FAILED, w', compileNode)
      \<and> jobOutput w' = [''partial'', ''warn''] \<and> flog w' = [FLOG_OUTPUT [], FLOG_ERROR err]
      \<and> fileSystem w' = fileSystem oldWorld)"
proof -
  have msg: "EmitCompilationMessage (options (envWith r)) compileNode (m_Name tool) args = []"
    for r args
    by (simp add: EmitCompilationMessage_def envWith_def quietOptions_def)
  have ab: "cancelled (exited PROCESS_EXIT_ABORTED 0 ''partial'')"
    by (simp add: cancelled_def exited_def)
  have wrong: "spawnOK (exited PROCESS_EXIT_NORMAL 0 ''partial'')
      \<and> exitReason (exited PROCESS_EXIT_NORMAL 0 ''partial'') \<noteq> PROCESS_EXIT_ABORTED
      \<and> (exitReason (exited PROCESS_EXIT_NORMAL 0 ''partial'') \<noteq> PROCESS_EXIT_NORMAL
         \<or> exitCode (exited PROCESS_EXIT_NORMAL 0 ''partial'') \<noteq> m_ExecReturnCode compileNode)"
    by (simp add: exited_def ExitReason_defs compileNode_def ExecNode_ctor_def)
  from DoBuild_cancel_same_result [OF compileNode_deps,
      of "envWith (exited PROCESS_EXIT_ABORTED 0 ''partial'')" oldWorld,
      unfolded spawned_envWith msg] ab
  have a: "DoBuild (envWith (exited PROCESS_EXIT_ABORTED 0 ''partial'')) oldWorld compileNode
      = Inr (NODE_RESULT_FAILED, FLOG oldWorld (FLOG_OUTPUT []), compileNode)"
    by blast
  from DoBuild_cancel_same_result [OF compileNode_deps,
      of "envWith (exited PROCESS_EXIT_NORMAL 0 ''partial'')" oldWorld,
      unfolded spawned_envWith msg] wrong
  obtain err where
    b: "DoBuild (envWith (exited PROCESS_EXIT_NORMAL 0 ''partial'')) oldWorld compileNode
      = Inr (NODE_RESULT_FAILED,
          FLOG (DumpOutput (DumpOutput (FLOG oldWorld (FLOG_OUTPUT []))
                  (memOut (exited PROCESS_EXIT_NORMAL 0 ''partial'')))
               (memErr (exited PROCESS_EXIT_NORMAL 0 ''partial''))) (FLOG_ERROR err),
          compileNode)"
    by blast
  have a': "\<exists>w'. DoBuild (envWith (exited PROCESS_EXIT_ABORTED 0 ''partial'')) oldWorld compileNode
        = Inr (NODE_RESULT_FAILED, w', compileNode)
      \<and> jobOutput w' = [] \<and> flog w' = [FLOG_OUTPUT []]
      \<and> fileSystem w' = fileSystem oldWorld"
    unfolding a by (simp add: oldWorld_def)
  have b': "\<exists>w' err. DoBuild (envWith (exited PROCESS_EXIT_NORMAL 0 ''partial'')) oldWorld compileNode
        = Inr (NODE_RESULT_FAILED, w', compileNode)
      \<and> jobOutput w' = [''partial'', ''warn''] \<and> flog w' = [FLOG_OUTPUT [], FLOG_ERROR err]
      \<and> fileSystem w' = fileSystem oldWorld"
    unfolding b by (simp add: oldWorld_def exited_def)
  from a' b' show ?thesis by blast
qed

section \<open>The executable of a node\<close>

text \<open>
  C8. With \<^verbatim>\<open>Function::GetFileNode\<close> as the spec describes it: when the executable
  reference does not resolve to exactly one node, \<open>Initialize\<close> returns false and leaves the
  node as it was; and whenever \<open>Initialize\<close> returns true, the reference resolved to
  exactly one node, a file, which is the first static dependency added. \<open>Initialize\<close>
  has no process among its arguments or results: nothing is spawned by it.
\<close>

theorem Initialize_executable_exactly_one:
  "(length resolved \<noteq> 1 \<longrightarrow>
      Initialize preBuildOK (GetFileNode resolved) execInputFilesResult execInputPathsResult n
        = Inr (False, n))
   \<and> (Initialize preBuildOK (GetFileNode resolved) execInputFilesResult execInputPathsResult n
        = Inr (True, n') \<longrightarrow>
      (\<exists>e. resolved = [e] \<and> IsAFile e
         \<and> m_StaticDependencies n' ! length (m_StaticDependencies n) = e))"
proof -
  have a: "length resolved \<noteq> 1 \<Longrightarrow> GetFileNode resolved = None"
    by (cases resolved) (auto simp: GetFileNode_def split: list.splits)
  have b: "GetFileNode resolved = Some [e] \<Longrightarrow> resolved = [e] \<and> IsAFile e" for e
    by (auto simp: GetFileNode_def split: list.splits if_splits)
  have c: "Initialize preBuildOK (GetFileNode resolved) execInputFilesResult
               execInputPathsResult n = Inr (False, n)" if "length resolved \<noteq> 1"
    using a [OF that] by (simp add: Initialize_def)
  have d: "\<exists>e. resolved = [e] \<and> IsAFile e
             \<and> m_StaticDependencies n' ! length (m_StaticDependencies n) = e"
    if "Initialize preBuildOK (GetFileNode resolved) execInputFilesResult
          execInputPathsResult n = Inr (True, n')"
  proof -
    from Initialize_True_deps [OF that] obtain e ins paths where
      e: "GetFileNode resolved = Some [e]"
      and deps: "m_StaticDependencies n' = m_StaticDependencies n @ e # ins @ paths"
      by blast
    from deps have "m_StaticDependencies n' ! length (m_StaticDependencies n) = e"
      by simp
    with b [OF e] show ?thesis by blast
  qed
  from c d show ?thesis by blast
qed

text \<open>
  Two nodes for the executable: false. One: true, and it is static dependency 0.
\<close>

theorem Initialize_executable_exactly_one_witness:
  "Initialize True (GetFileNode [tool, a_c]) (Some [a_c, b_c]) (Some []) (ExecNode_ctor ''out.o'')
     = Inr (False, ExecNode_ctor ''out.o'')
   \<and> Initialize True (GetFileNode [tool]) (Some [a_c, b_c]) (Some []) (ExecNode_ctor ''out.o'')
     = Inr (True, (ExecNode_ctor ''out.o'')
         \<lparr> m_NumExecInputFiles := 2, m_StaticDependencies := [tool, a_c, b_c] \<rparr>)
   \<and> IsAFile tool
   \<and> m_StaticDependencies ((ExecNode_ctor ''out.o'')
         \<lparr> m_NumExecInputFiles := 2, m_StaticDependencies := [tool, a_c, b_c] \<rparr>) ! 0 = tool"
proof -
  have two: "length [tool, a_c] \<noteq> 1"
    by simp
  have i: "Initialize True (GetFileNode [tool]) (Some [a_c, b_c]) (Some []) (ExecNode_ctor ''out.o'')
     = Inr (True, (ExecNode_ctor ''out.o'')
         \<lparr> m_NumExecInputFiles := 2, m_StaticDependencies := [tool, a_c, b_c] \<rparr>)"
    by (simp add: Initialize_def GetFileNode_def tool_def FileNode_ctor_def ExecNode_ctor_def)
  have fresh: "length (m_StaticDependencies (ExecNode_ctor ''out.o'')) = 0"
    by (simp add: ExecNode_ctor_def)
  from Initialize_executable_exactly_one [of "[tool, a_c]" True "Some [a_c, b_c]" "Some []"
      "ExecNode_ctor ''out.o''"] two
  have a: "Initialize True (GetFileNode [tool, a_c]) (Some [a_c, b_c]) (Some [])
      (ExecNode_ctor ''out.o'') = Inr (False, ExecNode_ctor ''out.o'')"
    by blast
  from Initialize_executable_exactly_one [of "[tool]" True "Some [a_c, b_c]" "Some []"
      "ExecNode_ctor ''out.o''" "(ExecNode_ctor ''out.o'')
         \<lparr> m_NumExecInputFiles := 2, m_StaticDependencies := [tool, a_c, b_c] \<rparr>"] i
  have "\<exists>e. [tool] = [e] \<and> IsAFile e
         \<and> m_StaticDependencies ((ExecNode_ctor ''out.o'')
              \<lparr> m_NumExecInputFiles := 2, m_StaticDependencies := [tool, a_c, b_c] \<rparr>)
            ! length (m_StaticDependencies (ExecNode_ctor ''out.o'')) = e"
    by blast
  then have b: "IsAFile tool
     \<and> m_StaticDependencies ((ExecNode_ctor ''out.o'')
         \<lparr> m_NumExecInputFiles := 2, m_StaticDependencies := [tool, a_c, b_c] \<rparr>) ! 0 = tool"
    unfolding fresh by auto
  from a i b show ?thesis by blast
qed

section \<open>The command line\<close>

text \<open>
  C3. The template \<open>-o %2 %1\<close> with output name \<open>out.o\<close> and inputs \<open>a.c\<close>,
  \<open>b.c\<close> gives \<open>-o out.o a.c b.c\<close> followed by one space; for every node with
  that template \<open>GetFullArgs\<close> appends \<open>-o\<close>, the node's name and its input names,
  joined by single spaces, and one final space. For every node whose template is the one
  token \<open>p"%1"\<close>, it appends the input names, each one wrapped as \<open>p"name"\<close>, joined
  by exactly one space, and one final space; and when such a token stands between other
  tokens of a template, that text stands between what the tokens before and the tokens
  after expand to.
\<close>

theorem GetFullArgs_template:
  "GetFullArgs compileNode [] = ''-o out.o a.c b.c ''
   \<and> (m_ExecArguments n = ''-o %2 %1'' \<longrightarrow>
        GetFullArgs n fullArgs =
          fullArgs @ ''-o '' @ m_Name n @ '' '' @ joinSp (inputNames n) @ '' '')
   \<and> (list_all (\<lambda>c. \<not> isWhitespace c) p
        \<and> m_ExecArguments n = p @ quote @ ''%1'' @ quote \<longrightarrow>
        GetFullArgs n fullArgs =
          fullArgs @ joinSp (map (\<lambda>f. p @ quote @ f @ quote) (inputNames n)) @ '' '')
   \<and> (list_all isToken before \<and> list_all isToken after
        \<and> list_all (\<lambda>c. \<not> isWhitespace c) p
        \<and> m_ExecArguments n = joinSp (before @ [p @ quote @ ''%1'' @ quote] @ after) \<longrightarrow>
        GetFullArgs n fullArgs =
          GetFullArgs_tokens n after
            (GetFullArgs_tokens n before fullArgs
             @ joinSp (map (\<lambda>f. p @ quote @ f @ quote) (inputNames n)) @ '' ''))"
proof -
  have a: "GetFullArgs compileNode [] = ''-o out.o a.c b.c ''"
    by (simp add: GetFullArgs_o_2_1 inputNames_def depNames_def example_defs)
  have d: "GetFullArgs n fullArgs =
          GetFullArgs_tokens n after
            (GetFullArgs_tokens n before fullArgs
             @ joinSp (map (\<lambda>f. p @ quote @ f @ quote) (inputNames n)) @ '' '')"
    if "list_all isToken before" "list_all isToken after"
      "list_all (\<lambda>c. \<not> isWhitespace c) p"
      "m_ExecArguments n = joinSp (before @ [p @ quote @ ''%1'' @ quote] @ after)"
    for before after
  proof -
    have "isToken (p @ quote @ ''%1'' @ quote)"
      using that(3) by (rule isToken_quoted_1)
    with that(1,2) have "list_all isToken (before @ [p @ quote @ ''%1'' @ quote] @ after)"
      by simp
    then have "Tokenize (m_ExecArguments n) = before @ [p @ quote @ ''%1'' @ quote] @ after"
      unfolding that(4) by (rule Tokenize_joinSp)
    then show ?thesis
      unfolding GetFullArgs_def
      by (simp only: GetFullArgs_tokens_append GetFullArgs_tokens.simps
          GetFullArgs_token_quoted_1)
  qed
  have c: "GetFullArgs n fullArgs =
          fullArgs @ joinSp (map (\<lambda>f. p @ quote @ f @ quote) (inputNames n)) @ '' ''"
    if "list_all (\<lambda>c. \<not> isWhitespace c) p" "m_ExecArguments n = p @ quote @ ''%1'' @ quote"
    using d [of "[]" "[]"] that by simp
  from a GetFullArgs_o_2_1 [of n fullArgs] c d show ?thesis
    by blast
qed

text \<open>
  The template \<open>cl /I"%1" -c\<close>, and the template \<open>-o %2 %1\<close>, on the node
  \<open>out.txt\<close> with one input file and a directory list of two files.
\<close>

theorem GetFullArgs_template_witness:
  "GetFullArgs includeNode [] =
     ''cl /I'' @ quote @ ''a.c'' @ quote @ '' /I'' @ quote @ ''src/x.c'' @ quote
       @ '' /I'' @ quote @ ''src/y.c'' @ quote @ '' -c ''
   \<and> GetFullArgs (listingNode'\<lparr> m_ExecArguments := ''-o %2 %1'' \<rparr>) ''tool ''
       = ''tool -o out.txt a.c src/x.c src/y.c ''"
proof -
  have names: "inputNames (listingNode'\<lparr> m_ExecArguments := t \<rparr>) = [''a.c'', ''src/x.c'', ''src/y.c'']"
    for t
    by (simp add: inputNames_def depNames_def listingNode'_def srcDir_def a_c_def FileNode_ctor_def)
  have names_inc: "inputNames includeNode = [''a.c'', ''src/x.c'', ''src/y.c'']"
    by (simp add: includeNode_def names)
  have toks: "list_all isToken [''cl'']" "list_all isToken [''-c'']"
    "list_all (\<lambda>c. \<not> isWhitespace c) ''/I''"
    by (simp_all add: isToken_def isWhitespace_def)
  have templ: "m_ExecArguments includeNode
      = joinSp ([''cl''] @ [''/I'' @ quote @ ''%1'' @ quote] @ [''-c''])"
    by (simp add: includeNode_def)
  have plain: "GetFullArgs_tokens includeNode [''cl''] [] = ''cl ''"
    "GetFullArgs_tokens includeNode [''-c''] acc = acc @ ''-c ''" for acc
    by (simp_all add: GetFullArgs_token_def EndsWith_def quote_def)
  have args: "m_ExecArguments (listingNode'\<lparr> m_ExecArguments := ''-o %2 %1'' \<rparr>) = ''-o %2 %1''"
    by simp
  have name: "m_Name (listingNode'\<lparr> m_ExecArguments := ''-o %2 %1'' \<rparr>) = ''out.txt''"
    by (simp add: listingNode'_def listingNode_def ExecNode_ctor_def)
  from GetFullArgs_template [of "listingNode'\<lparr> m_ExecArguments := ''-o %2 %1'' \<rparr>" "''tool ''"]
    args
  have "GetFullArgs (listingNode'\<lparr> m_ExecArguments := ''-o %2 %1'' \<rparr>) ''tool ''
       = ''tool '' @ ''-o '' @ m_Name (listingNode'\<lparr> m_ExecArguments := ''-o %2 %1'' \<rparr>)
           @ '' '' @ joinSp (inputNames (listingNode'\<lparr> m_ExecArguments := ''-o %2 %1'' \<rparr>))
           @ '' ''"
    by blast
  then have a: "GetFullArgs (listingNode'\<lparr> m_ExecArguments := ''-o %2 %1'' \<rparr>) ''tool ''
       = ''tool -o out.txt a.c src/x.c src/y.c ''"
    unfolding names name by simp
  from GetFullArgs_template [of includeNode _ "''/I''" "[''cl'']" "[''-c'']"] toks templ
  have "GetFullArgs includeNode [] =
      GetFullArgs_tokens includeNode [''-c'']
        (GetFullArgs_tokens includeNode [''cl''] []
         @ joinSp (map (\<lambda>f. ''/I'' @ quote @ f @ quote) (inputNames includeNode)) @ '' '')"
    by blast
  then have b: "GetFullArgs includeNode [] =
     ''cl /I'' @ quote @ ''a.c'' @ quote @ '' /I'' @ quote @ ''src/x.c'' @ quote
       @ '' /I'' @ quote @ ''src/y.c'' @ quote @ '' -c ''"
    unfolding plain names_inc by simp
  from a b show ?thesis by blast
qed

text \<open>
  C10. For every node, what \<open>GetInputFiles\<close> appends is made from the static dependencies
  after the first, in their order: the name of each node, and for a directory list its
  files in the listing's order; the first static dependency contributes nothing. After
  \<open>Initialize\<close> on a fresh node the first static dependency is the executable, and the
  expansion is that of the input files followed by the directory lists.
\<close>

theorem GetInputFiles_skips_executable:
  "GetInputFiles n fullArgs pre post =
     fullArgs @ joinSp (map (\<lambda>f. pre @ f @ post)
                  (concat (map depNames (drop 1 (m_StaticDependencies n)))))
   \<and> (m_StaticDependencies n = [] \<and>
      Initialize preBuildOK (Some executable) (Some execInputFiles) (Some execInputPaths) n
        = Inr (True, n') \<longrightarrow>
      (\<exists>e. executable = [e] \<and> m_StaticDependencies n' = e # execInputFiles @ execInputPaths)
      \<and> GetInputFiles n' fullArgs pre post =
          fullArgs @ joinSp (map (\<lambda>f. pre @ f @ post)
                       (concat (map depNames (execInputFiles @ execInputPaths)))))"
proof -
  have "(\<exists>e. executable = [e] \<and> m_StaticDependencies n' = e # execInputFiles @ execInputPaths)
      \<and> GetInputFiles n' fullArgs pre post =
          fullArgs @ joinSp (map (\<lambda>f. pre @ f @ post)
                       (concat (map depNames (execInputFiles @ execInputPaths))))"
    if fresh: "m_StaticDependencies n = []"
      and init: "Initialize preBuildOK (Some executable) (Some execInputFiles)
                   (Some execInputPaths) n = Inr (True, n')"
  proof -
    from Initialize_True_deps [OF init] fresh obtain e where
      "executable = [e]" "m_StaticDependencies n' = e # execInputFiles @ execInputPaths"
      by auto
    then show ?thesis
      by (simp add: GetInputFiles_eq)
  qed
  then show ?thesis
    by (simp add: GetInputFiles_eq)
qed

text \<open>
  After \<open>Initialize\<close> with executable \<open>tool\<close>, input \<open>a.c\<close> and the listing of
  \<open>src/\<close>: the expansion has no \<open>tool\<close>.
\<close>

theorem GetInputFiles_skips_executable_witness:
  "Initialize True (Some [tool]) (Some [a_c]) (Some [srcDir]) listingNode = Inr (True, listingNode')
   \<and> m_StaticDependencies listingNode' = [tool, a_c, srcDir]
   \<and> GetInputFiles listingNode' ''cl '' [] [] = ''cl a.c src/x.c src/y.c''"
proof -
  have fresh: "m_StaticDependencies listingNode = []"
    by (simp add: listingNode_def ExecNode_ctor_def)
  have init: "Initialize True (Some [tool]) (Some [a_c]) (Some [srcDir]) listingNode
      = Inr (True, listingNode')"
    by (simp add: Initialize_def listingNode'_def listingNode_def ExecNode_ctor_def)
  from GetInputFiles_skips_executable [of listingNode "''cl ''" "[]" "[]" True "[tool]" "[a_c]"
      "[srcDir]" listingNode'] fresh init
  have "m_StaticDependencies listingNode' = [tool, a_c, srcDir]
      \<and> GetInputFiles listingNode' ''cl '' [] [] =
          ''cl '' @ joinSp (map (\<lambda>f. [] @ f @ []) (concat (map depNames ([a_c] @ [srcDir]))))"
    by auto
  with init show ?thesis
    by (simp add: depNames_def srcDir_def a_c_def FileNode_ctor_def)
qed

section \<open>Dynamic dependencies\<close>




end
